theory Spec2Isabelle
  imports Main "HOL-Library.Word"
begin

section \<open>Python strings\<close>

text \<open>
  A Python \<open>str\<close> is modelled as a \<open>string\<close> whose characters are the code points
  0..255. \<open>str.strip()\<close> removes the leading and trailing characters for which
  \<open>str.isspace\<close> holds; in this range they are TAB..CR, FS..US, SPACE, NEL and NBSP.
\<close>

definition py_isspace :: "char \<Rightarrow> bool" where
  "py_isspace c = (c \<in> set [CHR 0x09, CHR 0x0A, CHR 0x0B, CHR 0x0C, CHR 0x0D,
     CHR 0x1C, CHR 0x1D, CHR 0x1E, CHR 0x1F, CHR 0x20, CHR 0x85, CHR 0xA0])"

definition strip :: "string \<Rightarrow> string" where
  "strip s = rev (dropWhile py_isspace (rev (dropWhile py_isspace s)))"

text \<open>\<open>s.startswith(p)\<close>.\<close>

definition startswith :: "string \<Rightarrow> string \<Rightarrow> bool" where
  "startswith s p = (take (length p) s = p)"

text \<open>\<open>s.split(sep)\<close> for a one-character separator: never an empty list.\<close>

fun split :: "char \<Rightarrow> string \<Rightarrow> string list" where
  "split sep [] = [[]]"
| "split sep (c # cs) =
     (if c = sep then [] # split sep cs
      else (case split sep cs of
              [] \<Rightarrow> [[c]]
            | w # ws \<Rightarrow> (c # w) # ws))"

section \<open>Submitted form data and stored attribute values\<close>

datatype py_error = AttributeError | ValueError | IntegrityError | Http404

text \<open>
  One SIM-card sub-record is a Python dict built by assignments in a fixed order; it is
  kept as the association list of its items in insertion order.
\<close>

type_synonym sim_card = "(string \<times> string) list"

text \<open>The values a \<open>device_specific_data\<close> dict holds.\<close>

datatype pyval = PStr string | PBool bool | PSims "sim_card list"

type_synonym bag = "string \<rightharpoonup> pyval"

text \<open>
  \<open>post_data\<close> is duck-typed. The views pass \<open>request.POST\<close>, a Django \<open>QueryDict\<close>:
  every key has a list of submitted strings (the empty list when the key is absent),
  \<open>get\<close> answers the last one and \<open>getlist\<close> the list. A plain \<open>dict\<close> (what the function
  itself returns) has \<open>get\<close> but no \<open>getlist\<close>.
\<close>

datatype post_data = QueryDict "string \<Rightarrow> string list" | PlainDict bag

fun pd_get :: "post_data \<Rightarrow> string \<Rightarrow> pyval option" where
  "pd_get (QueryDict q) k = (case q k of [] \<Rightarrow> None | v # vs \<Rightarrow> Some (PStr (last (v # vs))))"
| "pd_get (PlainDict d) k = d k"

fun pd_getlist :: "post_data \<Rightarrow> string \<Rightarrow> py_error + string list" where
  "pd_getlist (QueryDict q) k = Inr (q k)"
| "pd_getlist (PlainDict d) k = Inl AttributeError"

text \<open>Python truthiness of a stored value, and \<open>value.strip()\<close>, which only \<open>str\<close> has.\<close>

fun truthy :: "pyval \<Rightarrow> bool" where
  "truthy (PStr s) = (s \<noteq> [])"
| "truthy (PBool b) = b"
| "truthy (PSims l) = (l \<noteq> [])"

fun val_strip :: "pyval \<Rightarrow> py_error + string" where
  "val_strip (PStr s) = Inr (strip s)"
| "val_strip (PBool b) = Inl AttributeError"
| "val_strip (PSims l) = Inl AttributeError"

section \<open>\<open>_extract_device_specific_data\<close> (views.py)\<close>

definition device_specific_fields :: "string list" where
  "device_specific_fields =
    [''computer_type'', ''os_type'', ''os_version'', ''cpu'', ''ram'', ''storage_type'',
     ''storage_capacity'', ''encryption_status'', ''write_blocker_used'',
     ''mobile_os_type'', ''mobile_os_version'', ''sim_status'', ''lock_status'', ''battery_level'',
     ''storage_device_type'', ''capacity'', ''connection_interface'', ''filesystem'',
     ''network_device_type'', ''network_ip_address'', ''subnet_mask'', ''admin_access_method'',
     ''service_provider'', ''account_identifier'', ''legal_authority'', ''access_method'',
     ''vehicle_make'', ''vehicle_model'', ''vehicle_year'', ''vin_number'', ''license_plate'', ''odometer'',
     ''video_source_type'', ''camera_location'', ''video_format'', ''resolution'', ''duration'',
     ''frame_rate'', ''date_diff_value'', ''time_diff_value'',
     ''console_type'', ''account_username'',
     ''drone_storage_type'', ''controller_serial'',
     ''iot_device_type'', ''network_type'',
     ''memory_type'', ''system_state'', ''memory_size'', ''acquisition_duration'']"

text \<open>
  The body of the first loop for one \<open>field\<close>:
  \<^verbatim>\<open>value = post_data.get(field)
if value and value.strip():
    if field == 'write_blocker_used': device_data[field] = True
    else: device_data[field] = value.strip()\<close>
\<close>

definition extract_field :: "post_data \<Rightarrow> string \<Rightarrow> bag \<Rightarrow> py_error + bag" where
  "extract_field post field device_data =
     (case pd_get post field of
        None \<Rightarrow> Inr device_data
      | Some v \<Rightarrow>
          if truthy v then
            (case val_strip v of
               Inl e \<Rightarrow> Inl e
             | Inr s \<Rightarrow>
                 if s \<noteq> [] then
                   (if field = ''write_blocker_used''
                    then Inr (device_data(field \<mapsto> PBool True))
                    else Inr (device_data(field \<mapsto> PStr s)))
                 else Inr device_data)
          else Inr device_data)"

fun extract_fields :: "post_data \<Rightarrow> string list \<Rightarrow> bag \<Rightarrow> py_error + bag" where
  "extract_fields post [] device_data = Inr device_data"
| "extract_fields post (field # fields) device_data =
     (case extract_field post field device_data of
        Inl e \<Rightarrow> Inl e
      | Inr d \<Rightarrow> extract_fields post fields d)"

text \<open>
  One guarded assignment of the second loop:
  \<^verbatim>\<open>if i < len(xs) and xs[i].strip(): sim_card[key] = xs[i].strip()\<close>
\<close>

definition sim_entry :: "string \<Rightarrow> string list \<Rightarrow> nat \<Rightarrow> sim_card" where
  "sim_entry key xs i =
     (if i < length xs \<and> strip (xs ! i) \<noteq> [] then [(key, strip (xs ! i))] else [])"

record sim_arrays =
  sim_iccids :: "string list"
  sim_imsis :: "string list"
  sim_phone_numbers :: "string list"
  sim_carriers :: "string list"
  sim_types :: "string list"
  sim_pin_statuses :: "string list"
  sim_notes_list :: "string list"

definition sim_card_at :: "sim_arrays \<Rightarrow> nat \<Rightarrow> sim_card" where
  "sim_card_at a i =
     sim_entry ''iccid'' (sim_iccids a) i @
     sim_entry ''imsi'' (sim_imsis a) i @
     sim_entry ''phone_number'' (sim_phone_numbers a) i @
     sim_entry ''carrier'' (sim_carriers a) i @
     sim_entry ''sim_type'' (sim_types a) i @
     sim_entry ''pin_status'' (sim_pin_statuses a) i @
     sim_entry ''notes'' (sim_notes_list a) i"

definition max_length :: "sim_arrays \<Rightarrow> nat" where
  "max_length a =
     Max (set [length (sim_iccids a), length (sim_imsis a), length (sim_phone_numbers a),
               length (sim_carriers a), length (sim_types a), length (sim_pin_statuses a),
               length (sim_notes_list a)])"

text \<open>The list \<open>sim_cards\<close> after the loop over \<open>range(max_length)\<close>: empty rows are not appended.\<close>

definition build_sim_cards :: "sim_arrays \<Rightarrow> sim_card list" where
  "build_sim_cards a = filter (\<lambda>sim_card. sim_card \<noteq> []) (map (sim_card_at a) [0..<max_length a])"

text \<open>\<open>any([...])\<close> over the seven lists: some list is non-empty.\<close>

definition any_sim_data :: "sim_arrays \<Rightarrow> bool" where
  "any_sim_data a =
     (sim_iccids a \<noteq> [] \<or> sim_imsis a \<noteq> [] \<or> sim_phone_numbers a \<noteq> [] \<or> sim_carriers a \<noteq> [] \<or>
      sim_types a \<noteq> [] \<or> sim_pin_statuses a \<noteq> [] \<or> sim_notes_list a \<noteq> [])"

definition add_sim_cards :: "sim_arrays \<Rightarrow> bag \<Rightarrow> bag" where
  "add_sim_cards a device_data =
     (if any_sim_data a then
        (let sim_cards = build_sim_cards a
         in if sim_cards \<noteq> [] then device_data(''sim_cards'' \<mapsto> PSims sim_cards) else device_data)
      else device_data)"

text \<open>The seven \<open>getlist\<close> calls, in the source's order; the first that raises ends the call.\<close>

definition get_sim_arrays :: "post_data \<Rightarrow> py_error + sim_arrays" where
  "get_sim_arrays post =
     (case pd_getlist post ''sim_iccid[]'' of Inl e \<Rightarrow> Inl e | Inr a1 \<Rightarrow>
      case pd_getlist post ''sim_imsi[]'' of Inl e \<Rightarrow> Inl e | Inr a2 \<Rightarrow>
      case pd_getlist post ''sim_phone_number[]'' of Inl e \<Rightarrow> Inl e | Inr a3 \<Rightarrow>
      case pd_getlist post ''sim_carrier[]'' of Inl e \<Rightarrow> Inl e | Inr a4 \<Rightarrow>
      case pd_getlist post ''sim_type[]'' of Inl e \<Rightarrow> Inl e | Inr a5 \<Rightarrow>
      case pd_getlist post ''sim_pin_status[]'' of Inl e \<Rightarrow> Inl e | Inr a6 \<Rightarrow>
      case pd_getlist post ''sim_notes[]'' of Inl e \<Rightarrow> Inl e | Inr a7 \<Rightarrow>
        Inr \<lparr>sim_iccids = a1, sim_imsis = a2, sim_phone_numbers = a3, sim_carriers = a4,
             sim_types = a5, sim_pin_statuses = a6, sim_notes_list = a7\<rparr>)"

definition extract_device_specific_data :: "post_data \<Rightarrow> py_error + bag" where
  "extract_device_specific_data post =
     (case extract_fields post device_specific_fields Map.empty of
        Inl e \<Rightarrow> Inl e
      | Inr device_data \<Rightarrow>
          (case get_sim_arrays post of
             Inl e \<Rightarrow> Inl e
           | Inr a \<Rightarrow> Inr (add_sim_cards a device_data)))"

section \<open>Python integers as text\<close>

text \<open>\<open>str(n)\<close> for a natural number: its decimal digits, most significant first.\<close>

definition digit_char :: "nat \<Rightarrow> char" where
  "digit_char d = char_of (48 + d)"

function dec :: "nat \<Rightarrow> string" where
  "dec n = (if n < 10 then [digit_char n] else dec (n div 10) @ [digit_char (n mod 10)])"
  by pat_completeness auto
termination
  by (relation "measure (\<lambda>n. n)") auto

text \<open>
  The format specification \<open>{n:0Wd}\<close>: the sign first, then zeros up to the width \<open>W\<close>, then the
  digits; a number wider than \<open>W\<close> is written in full.
\<close>

definition format_d :: "nat \<Rightarrow> int \<Rightarrow> string" where
  "format_d w n =
     (if n < 0
      then CHR ''-'' # replicate (w - 1 - length (dec (nat (- n)))) CHR ''0'' @ dec (nat (- n))
      else replicate (w - length (dec (nat n))) CHR ''0'' @ dec (nat n))"

text \<open>
  \<open>int(s)\<close> in base 10, \<open>None\<close> for \<open>ValueError\<close>: optional surrounding whitespace, an optional
  sign, then decimal digits in which single underscores may separate digits. The
  whitespace \<open>int\<close> skips is TAB..CR, SPACE, NEL and NBSP.
\<close>

definition is_digit :: "char \<Rightarrow> bool" where
  "is_digit c = (c \<in> set ''0123456789'')"

definition digit_val :: "char \<Rightarrow> nat" where
  "digit_val c = of_char c - 48"

definition int_isspace :: "char \<Rightarrow> bool" where
  "int_isspace c = (c \<in> set [CHR 0x09, CHR 0x0A, CHR 0x0B, CHR 0x0C, CHR 0x0D,
     CHR 0x20, CHR 0x85, CHR 0xA0])"

fun digits_ok :: "string \<Rightarrow> bool" where
  "digits_ok [] = False"
| "digits_ok [c] = is_digit c"
| "digits_ok (c # d # cs) =
     (is_digit c \<and> (if d = CHR ''_'' then digits_ok cs else digits_ok (d # cs)))"

definition digits_value :: "string \<Rightarrow> nat" where
  "digits_value ds = fold (\<lambda>c n. if c = CHR ''_'' then n else 10 * n + digit_val c) ds 0"

definition py_int :: "string \<Rightarrow> int option" where
  "py_int s =
     (let t = rev (dropWhile int_isspace (rev (dropWhile int_isspace s)))
      in case t of
           [] \<Rightarrow> None
         | c # cs \<Rightarrow>
             if c = CHR ''-'' then (if digits_ok cs then Some (- int (digits_value cs)) else None)
             else if c = CHR ''+'' then (if digits_ok cs then Some (int (digits_value cs)) else None)
             else (if digits_ok t then Some (int (digits_value t)) else None))"

text \<open>The order of \<open>ORDER BY\<close> on a text column: code point by code point.\<close>

fun str_less :: "string \<Rightarrow> string \<Rightarrow> bool" where
  "str_less [] [] = False"
| "str_less [] (y # ys) = True"
| "str_less (x # xs) [] = False"
| "str_less (x # xs) (y # ys) =
     ((of_char x :: nat) < of_char y \<or> (x = y \<and> str_less xs ys))"

section \<open>The stored records (models.py)\<close>

text \<open>
  Primary keys are UUIDs, kept as their text. Of each table only the columns that the
  identifier, custody, attribute and fingerprint code reads or writes are kept; the
  descriptive columns are copied from the submission and read by none of the functions
  below. The database rejects a write that breaks the \<open>unique\<close> constraint of
  \<open>case_number\<close> or \<open>evidence_number\<close>, or that inserts an existing primary key, with
  \<open>IntegrityError\<close>; reads and writes happen one request at a time.
\<close>

type_synonym querydict = "string \<Rightarrow> string list"

type_synonym bytes = "8 word list"

record case_rec =
  case_pk :: string
  case_number :: string

record evidence_rec =
  ev_pk :: string
  evidence_number :: string
  case_id :: "string option"
  device_type :: string
  status :: string
  current_department :: string
  received_by :: string
  received_date :: "nat option"
  file_path :: "bytes option"
  file_size :: "nat option"
  hash_md5 :: string
  hash_sha1 :: string
  hash_sha256 :: string
  device_specific_data :: bag

record transfer_rec =
  tr_evidence :: string
  from_department :: string
  to_department :: string
  transferred_by :: string
  tr_received_by :: string
  transfer_date :: nat
  tr_notes :: string

record db =
  cases :: "case_rec list"
  evidence_tbl :: "evidence_rec list"
  transfers :: "transfer_rec list"

text \<open>
  What the code takes from outside the repository: the clock (\<open>timezone.now()\<close>, as a
  timestamp and as its calendar year), \<open>django.utils.dateparse.parse_datetime\<close> (which
  answers \<open>None\<close> for text that is no date and raises \<open>ValueError\<close> for a well-formed
  impossible date) and the three \<open>hashlib\<close> digests.
\<close>

record env =
  now :: nat
  now_year :: nat
  parse_datetime :: "string \<Rightarrow> py_error + nat option"
  md5 :: "bytes \<Rightarrow> 128 word"
  sha1 :: "bytes \<Rightarrow> 160 word"
  sha256 :: "bytes \<Rightarrow> 256 word"

text \<open>\<open>strftime('%y')\<close>: the last two digits of the year.\<close>

definition strftime_y :: "env \<Rightarrow> string" where
  "strftime_y en = format_d 2 (int (now_year en mod 100))"

text \<open>\<open>hexdigest()\<close>: four bits per character, lower case, most significant first.\<close>

definition hex_char :: "nat \<Rightarrow> char" where
  "hex_char d = ''0123456789abcdef'' ! d"

definition hexdigest :: "'a::len word \<Rightarrow> string" where
  "hexdigest w = map (\<lambda>i. hex_char ((unat w div 16 ^ i) mod 16)) (rev [0..<LENGTH('a) div 4])"

text \<open>\<open>request.POST.get(key)\<close> and \<open>request.POST.get(key, default)\<close>.\<close>

definition qget :: "querydict \<Rightarrow> string \<Rightarrow> string option" where
  "qget q k = (case q k of [] \<Rightarrow> None | v # vs \<Rightarrow> Some (last (v # vs)))"

definition qget_default :: "querydict \<Rightarrow> string \<Rightarrow> string \<Rightarrow> string" where
  "qget_default q k d = (case qget q k of None \<Rightarrow> d | Some v \<Rightarrow> v)"

section \<open>\<open>Case.save\<close> (models.py)\<close>

text \<open>\<open>int(case.case_number.split('-')[1])\<close>; \<open>None\<close> when it raises \<open>ValueError\<close> or \<open>IndexError\<close>.\<close>

definition case_num :: "string \<Rightarrow> int option" where
  "case_num cn =
     (let parts = split CHR ''-'' cn
      in if 1 < length parts then py_int (parts ! 1) else None)"

text \<open>The loop over \<open>cases_this_year\<close>, with \<open>max_num\<close> as its accumulator.\<close>

fun scan_max_num :: "case_rec list \<Rightarrow> int \<Rightarrow> int" where
  "scan_max_num [] max_num = max_num"
| "scan_max_num (c # cs) max_num =
     (case case_num (case_number c) of
        None \<Rightarrow> scan_max_num cs max_num
      | Some num \<Rightarrow> scan_max_num cs (if num > max_num then num else max_num))"

definition cases_this_year :: "string \<Rightarrow> case_rec \<Rightarrow> db \<Rightarrow> case_rec list" where
  "cases_this_year year self d =
     filter (\<lambda>c. startswith (case_number c) (year @ ''-'') \<and> case_pk c \<noteq> case_pk self) (cases d)"

definition next_case_number :: "env \<Rightarrow> case_rec \<Rightarrow> db \<Rightarrow> string" where
  "next_case_number en self d =
     (let year = strftime_y en;
          max_num = scan_max_num (cases_this_year year self d) 0;
          next_num = max_num + 1
      in year @ ''-'' @ format_d 4 next_num)"

text \<open>
  \<open>super().save()\<close>: the row with this primary key is replaced, or the row is appended
  when there is none. \<open>force_insert\<close> is what \<open>objects.create\<close> passes.
\<close>

definition case_super_save :: "bool \<Rightarrow> case_rec \<Rightarrow> db \<Rightarrow> py_error + db" where
  "case_super_save force_insert self d =
     (if list_ex (\<lambda>c. case_pk c \<noteq> case_pk self \<and> case_number c = case_number self) (cases d)
         \<or> (force_insert \<and> list_ex (\<lambda>c. case_pk c = case_pk self) (cases d))
      then Inl IntegrityError
      else if list_ex (\<lambda>c. case_pk c = case_pk self) (cases d)
      then Inr (d\<lparr>cases := map (\<lambda>c. if case_pk c = case_pk self then self else c) (cases d)\<rparr>)
      else Inr (d\<lparr>cases := cases d @ [self]\<rparr>))"

text \<open>The instance after \<open>save\<close> (its number is assigned before the write) and the write's result.\<close>

definition case_save :: "env \<Rightarrow> bool \<Rightarrow> case_rec \<Rightarrow> db \<Rightarrow> case_rec \<times> (py_error + db)" where
  "case_save en force_insert self d =
     (let self' = (if case_number self = [] then self\<lparr>case_number := next_case_number en self d\<rparr>
                   else self)
      in (self', case_super_save force_insert self' d))"

section \<open>\<open>Evidence.save\<close> (models.py)\<close>

text \<open>
  \<open>file_path\<close> is \<open>None\<close> when no file is attached (the field is falsy) and otherwise the
  bytes that \<open>self.file_path.read()\<close> answers.
\<close>

definition fingerprint :: "env \<Rightarrow> evidence_rec \<Rightarrow> evidence_rec" where
  "fingerprint en self =
     (case file_path self of
        None \<Rightarrow> self
      | Some content \<Rightarrow>
          if hash_md5 self = []
          then self\<lparr>hash_md5 := hexdigest (md5 en content),
                    hash_sha1 := hexdigest (sha1 en content),
                    hash_sha256 := hexdigest (sha256 en content),
                    file_size := Some (length content)\<rparr>
          else self)"

definition evidence_super_save :: "bool \<Rightarrow> evidence_rec \<Rightarrow> db \<Rightarrow> py_error + db" where
  "evidence_super_save force_insert self d =
     (if list_ex (\<lambda>e. ev_pk e \<noteq> ev_pk self \<and> evidence_number e = evidence_number self) (evidence_tbl d)
         \<or> (force_insert \<and> list_ex (\<lambda>e. ev_pk e = ev_pk self) (evidence_tbl d))
      then Inl IntegrityError
      else if list_ex (\<lambda>e. ev_pk e = ev_pk self) (evidence_tbl d)
      then Inr (d\<lparr>evidence_tbl := map (\<lambda>e. if ev_pk e = ev_pk self then self else e) (evidence_tbl d)\<rparr>)
      else Inr (d\<lparr>evidence_tbl := evidence_tbl d @ [self]\<rparr>))"

definition evidence_save :: "env \<Rightarrow> bool \<Rightarrow> evidence_rec \<Rightarrow> db \<Rightarrow> evidence_rec \<times> (py_error + db)" where
  "evidence_save en force_insert self d =
     (let self' = fingerprint en self
      in (self', evidence_super_save force_insert self' d))"

text \<open>
  \<open>EvidenceTransfer.objects.create(evidence=..., from_department=..., to_department=...,
  received_by=evidence.received_by, notes=...)\<close>: one row appended to the ledger.
\<close>

definition create_transfer :: "env \<Rightarrow> evidence_rec \<Rightarrow> string \<Rightarrow> string \<Rightarrow> string \<Rightarrow> db \<Rightarrow> db" where
  "create_transfer en ev from to notes d =
     d\<lparr>transfers := transfers d @
        [\<lparr>tr_evidence = ev_pk ev, from_department = from, to_department = to,
          transferred_by = [], tr_received_by = received_by ev,
          transfer_date = now en, tr_notes = notes\<rparr>]\<rparr>"

section \<open>The views (views.py)\<close>

text \<open>
  A view answers with the message it shows, or an exception leaves it (\<open>Inl\<close>), and with
  the database as the request leaves it.
\<close>

datatype message =
    CaseCreated string
  | CaseNumberExists string
  | CaseUpdated
  | InvalidCaseSelected
  | ErrorCreatingEvidence py_error
  | EvidenceAdded string
  | EvidenceUpdated
  | JsonSuccess
  | JsonUpdated nat

type_synonym response = "(py_error + message) \<times> db"

subsection \<open>\<open>case_create\<close> and \<open>case_update\<close>\<close>

definition case_create :: "env \<Rightarrow> string \<Rightarrow> querydict \<Rightarrow> db \<Rightarrow> response" where
  "case_create en new_pk q d =
     (let case_number' = strip (qget_default q ''case_number'' [])
      in case case_save en True \<lparr>case_pk = new_pk, case_number = case_number'\<rparr> d of
           (c, Inr d') \<Rightarrow> (Inr (CaseCreated (case_number c)), d')
         | (c, Inl e) \<Rightarrow>
             if e = IntegrityError then (Inr (CaseNumberExists case_number'), d) else (Inl e, d))"

definition case_update :: "env \<Rightarrow> string \<Rightarrow> querydict \<Rightarrow> db \<Rightarrow> response" where
  "case_update en pk q d =
     (case find (\<lambda>c. case_pk c = pk) (cases d) of
        None \<Rightarrow> (Inl Http404, d)
      | Some c \<Rightarrow>
          (let new_case_number = strip (qget_default q ''case_number'' [])
           in if new_case_number \<noteq> [] \<and> new_case_number \<noteq> case_number c
                 \<and> list_ex (\<lambda>x. case_number x = new_case_number \<and> case_pk x \<noteq> case_pk c) (cases d)
              then (Inr (CaseNumberExists new_case_number), d)
              else
                (case case_save en False
                        (if new_case_number \<noteq> [] \<and> new_case_number \<noteq> case_number c
                         then c\<lparr>case_number := new_case_number\<rparr> else c) d of
                   (c', Inr d') \<Rightarrow> (Inr CaseUpdated, d')
                 | (c', Inl e) \<Rightarrow> (Inl e, d))))"

subsection \<open>\<open>evidence_create\<close>\<close>

text \<open>\<open>queryset.order_by('-evidence_number').first()\<close>.\<close>

definition highest_numbered :: "evidence_rec list \<Rightarrow> evidence_rec option" where
  "highest_numbered rows =
     fold (\<lambda>e best. case best of
                      None \<Rightarrow> Some e
                    | Some b \<Rightarrow> if str_less (evidence_number b) (evidence_number e) then Some e else Some b)
          rows None"

text \<open>
  \<^verbatim>\<open>if row:
    try: last_num = int(row.evidence_number.split('-')[-1]); next_num = last_num + 1
    except (ValueError, IndexError): next_num = 1
else: next_num = 1\<close>
\<close>

definition next_num_after :: "evidence_rec option \<Rightarrow> int" where
  "next_num_after row =
     (case row of
        None \<Rightarrow> 1
      | Some e \<Rightarrow>
          (case py_int (last (split CHR ''-'' (evidence_number e))) of
             None \<Rightarrow> 1
           | Some last_num \<Rightarrow> last_num + 1))"

text \<open>\<open>case_id if case_id else None\<close>.\<close>

definition given_case_id :: "querydict \<Rightarrow> string option" where
  "given_case_id q =
     (case qget q ''case'' of None \<Rightarrow> None | Some s \<Rightarrow> if s = [] then None else Some s)"

text \<open>The number block of \<open>evidence_create\<close>; \<open>Inl\<close> is its early return.\<close>

definition new_evidence_number :: "env \<Rightarrow> querydict \<Rightarrow> db \<Rightarrow> message + string" where
  "new_evidence_number en q d =
     (let evidence_number' = strip (qget_default q ''evidence_number'' [])
      in if evidence_number' \<noteq> [] then Inr evidence_number'
         else
           (case given_case_id q of
              Some cid \<Rightarrow>
                (case find (\<lambda>c. case_pk c = cid) (cases d) of
                   None \<Rightarrow> Inl InvalidCaseSelected
                 | Some c \<Rightarrow>
                     (let case_evidence = highest_numbered
                            (filter (\<lambda>e. case_id e = Some (case_pk c)
                                          \<and> startswith (evidence_number e) (case_number c))
                                    (evidence_tbl d));
                          next_num = next_num_after case_evidence
                      in Inr (case_number c @ ''-'' @ format_d 3 next_num)))
            | None \<Rightarrow>
                (let year = strftime_y en;
                     unassigned_evidence = highest_numbered
                       (filter (\<lambda>e. startswith (evidence_number e) (year @ ''-UNASSIGNED-''))
                               (evidence_tbl d));
                     next_num = next_num_after unassigned_evidence
                 in Inr (year @ ''-UNASSIGNED-'' @ format_d 3 next_num))))"

definition parse_date_field :: "env \<Rightarrow> querydict \<Rightarrow> string \<Rightarrow> py_error + nat option" where
  "parse_date_field en q field_name =
     (let v = strip (qget_default q field_name [])
      in if v \<noteq> [] then parse_datetime en v else Inr None)"

text \<open>The three date fields in the source's order; the first that raises ends the request.\<close>

definition parse_dates :: "env \<Rightarrow> querydict \<Rightarrow> py_error + nat option" where
  "parse_dates en q =
     (case parse_date_field en q ''received_date'' of
        Inl e \<Rightarrow> Inl e
      | Inr received \<Rightarrow>
          (case parse_date_field en q ''seizure_date'' of
             Inl e \<Rightarrow> Inl e
           | Inr seizure \<Rightarrow>
               (case parse_date_field en q ''acquisition_date'' of
                  Inl e \<Rightarrow> Inl e
                | Inr acquisition \<Rightarrow> Inr received)))"

definition case_exists :: "string \<Rightarrow> db \<Rightarrow> bool" where
  "case_exists cid d = list_ex (\<lambda>c. case_pk c = cid) (cases d)"

text \<open>The keyword arguments of \<open>Evidence.objects.create\<close>; no file is attached by this view.\<close>

definition new_evidence :: "env \<Rightarrow> string \<Rightarrow> string \<Rightarrow> querydict \<Rightarrow> bag \<Rightarrow> nat option
    \<Rightarrow> evidence_rec" where
  "new_evidence en new_pk evidence_number' q device_specific_data' received_date' =
     (let current_department' = qget_default q ''current_department'' []
      in \<lparr>ev_pk = new_pk, evidence_number = evidence_number',
          case_id = given_case_id q,
          device_type = qget_default q ''device_type'' ''other'',
          status = qget_default q ''status'' ''collected'',
          current_department = current_department',
          received_by = qget_default q ''received_by'' [],
          received_date = (if received_date' = None \<and> current_department' \<noteq> []
                           then Some (now en) else received_date'),
          file_path = None, file_size = None,
          hash_md5 = [], hash_sha1 = [], hash_sha256 = [],
          device_specific_data = device_specific_data'\<rparr>)"

text \<open>\<open>Evidence.objects.create\<close> under \<open>except Exception\<close>, then the first ledger row.\<close>

definition create_and_log :: "env \<Rightarrow> evidence_rec \<Rightarrow> db \<Rightarrow> response" where
  "create_and_log en evidence d =
     (case evidence_save en True evidence d of
        (ev, Inl e) \<Rightarrow> (Inr (ErrorCreatingEvidence e), d)
      | (ev, Inr d') \<Rightarrow>
          (Inr (EvidenceAdded (evidence_number ev)),
           if current_department ev \<noteq> []
           then create_transfer en ev [] (current_department ev) ''Initial evidence creation'' d'
           else d'))"

definition evidence_create :: "env \<Rightarrow> string \<Rightarrow> querydict \<Rightarrow> db \<Rightarrow> response" where
  "evidence_create en new_pk q d =
     (case new_evidence_number en q d of
        Inl m \<Rightarrow> (Inr m, d)
      | Inr evidence_number' \<Rightarrow>
     (case extract_device_specific_data (QueryDict q) of
        Inl e \<Rightarrow> (Inl e, d)
      | Inr device_specific_data' \<Rightarrow>
     (case parse_dates en q of
        Inl e \<Rightarrow> (Inl e, d)
      | Inr received_date' \<Rightarrow>
     (if (case given_case_id q of None \<Rightarrow> False | Some cid \<Rightarrow> \<not> case_exists cid d)
      then (Inr InvalidCaseSelected, d)
      else create_and_log en
             (new_evidence en new_pk evidence_number' q device_specific_data' received_date') d))))"

subsection \<open>\<open>evidence_update\<close>\<close>

text \<open>
  \<open>device_type\<close> and \<open>status\<close> are read with \<open>request.POST.get\<close> and no default: when the
  submission lacks one, the column is \<open>None\<close> and \<open>evidence.save()\<close> raises.
\<close>

text \<open>The assignments to the instance between the validation of the case and \<open>evidence.save()\<close>.\<close>

definition assign_submitted :: "env \<Rightarrow> querydict \<Rightarrow> bag \<Rightarrow> nat option \<Rightarrow> string \<Rightarrow> string
    \<Rightarrow> evidence_rec \<Rightarrow> evidence_rec" where
  "assign_submitted en q device_specific_data' received_date' device_type' status' evidence =
     (let submitted_number = strip (qget_default q ''evidence_number'' []);
          old_department = current_department evidence;
          new_department = qget_default q ''current_department'' []
      in evidence\<lparr>case_id := given_case_id q,
                  evidence_number := (if submitted_number \<noteq> [] then submitted_number
                                      else evidence_number evidence),
                  device_type := device_type',
                  status := status',
                  device_specific_data := device_specific_data',
                  current_department := new_department,
                  received_by := qget_default q ''received_by'' [],
                  received_date :=
                    (if received_date' \<noteq> None then received_date'
                     else if new_department \<noteq> [] \<and> old_department \<noteq> new_department
                     then Some (now en)
                     else if new_department = [] then None
                     else received_date evidence)\<rparr>)"

text \<open>\<open>evidence.save()\<close> and the ledger row that follows it when the department changed.\<close>

definition save_and_log :: "env \<Rightarrow> string \<Rightarrow> string \<Rightarrow> evidence_rec \<Rightarrow> db \<Rightarrow> response" where
  "save_and_log en old_department new_department evidence d =
     (case evidence_save en False evidence d of
        (ev, Inl e) \<Rightarrow> (Inl e, d)
      | (ev, Inr d') \<Rightarrow>
          (Inr EvidenceUpdated,
           if old_department \<noteq> new_department
           then create_transfer en ev old_department new_department ''Evidence update'' d'
           else d'))"

definition evidence_update :: "env \<Rightarrow> string \<Rightarrow> querydict \<Rightarrow> db \<Rightarrow> response" where
  "evidence_update en pk q d =
     (case find (\<lambda>e. ev_pk e = pk) (evidence_tbl d) of
        None \<Rightarrow> (Inl Http404, d)
      | Some evidence \<Rightarrow>
     (case extract_device_specific_data (QueryDict q) of
        Inl e \<Rightarrow> (Inl e, d)
      | Inr device_specific_data' \<Rightarrow>
     (if (case given_case_id q of None \<Rightarrow> False | Some cid \<Rightarrow> \<not> case_exists cid d)
      then (Inr InvalidCaseSelected, d)
      else
     (case parse_dates en q of
        Inl e \<Rightarrow> (Inl e, d)
      | Inr received_date' \<Rightarrow>
     (case qget q ''device_type'' of
        None \<Rightarrow> (Inl IntegrityError, d)
      | Some device_type' \<Rightarrow>
     (case qget q ''status'' of
        None \<Rightarrow> (Inl IntegrityError, d)
      | Some status' \<Rightarrow>
          save_and_log en (current_department evidence) (qget_default q ''current_department'' [])
            (assign_submitted en q device_specific_data' received_date' device_type' status' evidence)
            d))))))"

subsection \<open>\<open>evidence_quick_update_department\<close> and \<open>evidence_bulk_update\<close>\<close>

text \<open>
  Both read a JSON body; \<open>field\<close>, \<open>action\<close> and \<open>value\<close> are its strings and
  \<open>evidence_ids\<close> its list of keys. In both the ledger row is written before
  \<open>evidence.save()\<close>.
\<close>

text \<open>The assignment to the instance, and the ledger row of a changed department.\<close>

definition quick_assign :: "string \<Rightarrow> string \<Rightarrow> evidence_rec \<Rightarrow> evidence_rec" where
  "quick_assign field v evidence =
     (if field = ''current_department'' then evidence\<lparr>current_department := v\<rparr>
      else if field = ''received_by'' then evidence\<lparr>received_by := v\<rparr>
      else evidence)"

definition quick_log :: "env \<Rightarrow> string \<Rightarrow> string \<Rightarrow> string \<Rightarrow> evidence_rec \<Rightarrow> db \<Rightarrow> db" where
  "quick_log en field v old_department evidence d =
     (if field = ''current_department'' \<and> old_department \<noteq> v
      then create_transfer en evidence old_department v ''Quick update from location search'' d
      else d)"

definition evidence_quick_update_department :: "env \<Rightarrow> string \<Rightarrow> string \<Rightarrow> string \<Rightarrow> db \<Rightarrow> response" where
  "evidence_quick_update_department en pk field v d =
     (case find (\<lambda>e. ev_pk e = pk) (evidence_tbl d) of
        None \<Rightarrow> (Inl Http404, d)
      | Some evidence \<Rightarrow>
          (let old_department = current_department evidence;
               evidence' = quick_assign field v evidence;
               d1 = quick_log en field v old_department evidence' d
           in case evidence_save en False evidence' d1 of
                (ev, Inl e) \<Rightarrow> (Inl e, d1)
              | (ev, Inr d2) \<Rightarrow> (Inr JsonSuccess, d2)))"

definition bulk_assign :: "env \<Rightarrow> string \<Rightarrow> string \<Rightarrow> evidence_rec \<Rightarrow> evidence_rec" where
  "bulk_assign en action v evidence =
     (if action = ''department''
      then evidence\<lparr>current_department := v,
                    received_date := (if received_date evidence = None then Some (now en)
                                      else received_date evidence)\<rparr>
      else if action = ''status'' then evidence\<lparr>status := v\<rparr>
      else evidence)"

definition bulk_log :: "env \<Rightarrow> string \<Rightarrow> string \<Rightarrow> string \<Rightarrow> evidence_rec \<Rightarrow> db \<Rightarrow> db" where
  "bulk_log en action v old_department evidence d =
     (if action = ''department'' \<and> old_department \<noteq> v
      then create_transfer en evidence old_department v ''Bulk department assignment'' d
      else d)"

fun bulk_loop :: "env \<Rightarrow> string \<Rightarrow> string \<Rightarrow> string list \<Rightarrow> nat \<Rightarrow> db \<Rightarrow> (py_error + nat) \<times> db" where
  "bulk_loop en action v [] updated_count d = (Inr updated_count, d)"
| "bulk_loop en action v (evidence_id # ids) updated_count d =
     (case find (\<lambda>e. ev_pk e = evidence_id) (evidence_tbl d) of
        None \<Rightarrow> bulk_loop en action v ids updated_count d
      | Some evidence \<Rightarrow>
          (let old_department = current_department evidence;
               evidence' = bulk_assign en action v evidence;
               d1 = bulk_log en action v old_department evidence' d
           in case evidence_save en False evidence' d1 of
                (ev, Inl e) \<Rightarrow> (Inl e, d1)
              | (ev, Inr d2) \<Rightarrow> bulk_loop en action v ids (updated_count + 1) d2))"

definition evidence_bulk_update :: "env \<Rightarrow> string list \<Rightarrow> string \<Rightarrow> string \<Rightarrow> db \<Rightarrow> response" where
  "evidence_bulk_update en evidence_ids action v d =
     (case bulk_loop en action v evidence_ids 0 d of
        (Inl e, d') \<Rightarrow> (Inl e, d')
      | (Inr n, d') \<Rightarrow> (Inr (JsonUpdated n), d'))"

section \<open>The claims' vocabulary\<close>

text \<open>
  What the first loop stores under a key of a submission: the trimmed last value when it is
  not empty (\<open>True\<close> for the check box), nothing otherwise.
\<close>

definition flat_value :: "querydict \<Rightarrow> string \<Rightarrow> pyval option" where
  "flat_value q k =
     (if q k \<noteq> [] \<and> strip (last (q k)) \<noteq> []
      then Some (if k = ''write_blocker_used'' then PBool True else PStr (strip (last (q k))))
      else None)"

definition arrays_of :: "querydict \<Rightarrow> sim_arrays" where
  "arrays_of q =
     \<lparr>sim_iccids = q ''sim_iccid[]'', sim_imsis = q ''sim_imsi[]'',
      sim_phone_numbers = q ''sim_phone_number[]'', sim_carriers = q ''sim_carrier[]'',
      sim_types = q ''sim_type[]'', sim_pin_statuses = q ''sim_pin_status[]'',
      sim_notes_list = q ''sim_notes[]''\<rparr>"

text \<open>
  The SIM-card rule in the specification's words: the parallel arrays, each under the name
  of its field, are zipped by position up to the longest one; the row of an index holds the
  fields that are present and not blank there; rows without a field are dropped.
\<close>

definition named_arrays :: "sim_arrays \<Rightarrow> (string \<times> string list) list" where
  "named_arrays a =
     [(''iccid'', sim_iccids a), (''imsi'', sim_imsis a), (''phone_number'', sim_phone_numbers a),
      (''carrier'', sim_carriers a), (''sim_type'', sim_types a), (''pin_status'', sim_pin_statuses a),
      (''notes'', sim_notes_list a)]"

definition zip_row :: "(string \<times> string list) list \<Rightarrow> nat \<Rightarrow> sim_card" where
  "zip_row named i =
     concat (map (\<lambda>(key, xs). if i < length xs \<and> strip (xs ! i) \<noteq> [] then [(key, strip (xs ! i))] else [])
                 named)"

definition zipped_sim_cards :: "(string \<times> string list) list \<Rightarrow> sim_card list" where
  "zipped_sim_cards named =
     filter (\<lambda>row. row \<noteq> [])
       (map (zip_row named) [0..<fold max (map (\<lambda>(key, xs). length xs) named) 0])"



text \<open>\<open>get_object_or_404(Evidence, pk=pk)\<close>, as a lookup.\<close>

definition find_evidence :: "string \<Rightarrow> db \<Rightarrow> evidence_rec option" where
  "find_evidence pk d = find (\<lambda>e. ev_pk e = pk) (evidence_tbl d)"

text \<open>A small database for the examples: one case, one item held by \<open>ar\<close>, its first ledger row.\<close>

definition example_env :: env where
  "example_env = \<lparr>now = 1000, now_year = 2025, parse_datetime = (\<lambda>s. Inr None),
                   md5 = (\<lambda>b. 0), sha1 = (\<lambda>b. 0), sha256 = (\<lambda>b. 0)\<rparr>"

definition example_evidence :: evidence_rec where
  "example_evidence =
     \<lparr>ev_pk = ''e1'', evidence_number = ''25-0008-001'', case_id = Some ''c1'',
      device_type = ''mobile'', status = ''collected'', current_department = ''ar'',
      received_by = ''R. Doe'', received_date = Some 900, file_path = None, file_size = None,
      hash_md5 = [], hash_sha1 = [], hash_sha256 = [],
      device_specific_data = [''os_type'' \<mapsto> PStr ''iOS'', ''sim_cards'' \<mapsto> PSims [[(''iccid'', ''A'')]]]\<rparr>"

definition example_db :: db where
  "example_db =
     \<lparr>cases = [\<lparr>case_pk = ''c1'', case_number = ''25-0008''\<rparr>],
      evidence_tbl = [example_evidence],
      transfers = [\<lparr>tr_evidence = ''e1'', from_department = [], to_department = ''ar'',
                    transferred_by = [], tr_received_by = ''R. Doe'', transfer_date = 900,
                    tr_notes = ''Initial evidence creation''\<rparr>]\<rparr>"

definition example_update :: querydict where
  "example_update = (\<lambda>k. [])(''device_type'' := [''computer''], ''status'' := [''analyzed''],
      ''cpu'' := ['' x86 ''], ''current_department'' := [''ar''], ''case'' := [''c1''])"

section \<open>Facts about the attribute normalization\<close>

lemma strip_Nil [simp]: "strip [] = []"
  by (simp add: strip_def)

lemma extract_field_qd:
  "extract_field (QueryDict q) f d =
     Inr (case flat_value q f of None \<Rightarrow> d | Some v \<Rightarrow> d(f \<mapsto> v))"
  by (cases "q f") (auto simp: extract_field_def flat_value_def)

lemma extract_fields_qd:
  "extract_fields (QueryDict q) fs d =
     Inr (\<lambda>k. if k \<in> set fs then (case flat_value q k of None \<Rightarrow> d k | Some v \<Rightarrow> Some v) else d k)"
proof (induction fs arbitrary: d)
  case Nil
  show ?case by simp
next
  case (Cons f fs)
  show ?case
    by (cases "flat_value q f") (auto simp: extract_field_qd Cons.IH split: option.splits)
qed

lemma get_sim_arrays_qd: "get_sim_arrays (QueryDict q) = Inr (arrays_of q)"
  by (simp add: get_sim_arrays_def arrays_of_def)

lemma sim_cards_not_field: "''sim_cards'' \<notin> set device_specific_fields"
  by (simp add: device_specific_fields_def)

lemma build_sim_cards_no_data: "\<not> any_sim_data a \<Longrightarrow> build_sim_cards a = []"
  by (simp add: any_sim_data_def build_sim_cards_def max_length_def)

lemma add_sim_cards_apply:
  "add_sim_cards a d k =
     (if k = ''sim_cards'' \<and> build_sim_cards a \<noteq> [] then Some (PSims (build_sim_cards a)) else d k)"
  using build_sim_cards_no_data [of a] by (auto simp: add_sim_cards_def Let_def)

text \<open>On a form submission the function never raises, and this is the bag it returns.\<close>

lemma extract_qd:
  "extract_device_specific_data (QueryDict q) =
     Inr (\<lambda>k. if k = ''sim_cards''
              then (if build_sim_cards (arrays_of q) \<noteq> []
                    then Some (PSims (build_sim_cards (arrays_of q))) else None)
              else if k \<in> set device_specific_fields then flat_value q k else None)"
  using sim_cards_not_field
  by (auto simp: extract_device_specific_data_def extract_fields_qd get_sim_arrays_qd
        add_sim_cards_apply fun_eq_iff split: option.splits)

lemma sim_card_at_zip_row: "sim_card_at a = zip_row (named_arrays a)"
  by (rule ext) (simp add: sim_card_at_def zip_row_def named_arrays_def sim_entry_def)

lemma max_length_fold:
  "max_length a = fold max (map (\<lambda>(key, xs). length xs) (named_arrays a)) 0"
  by (simp add: max_length_def named_arrays_def max_def)

lemma build_sim_cards_zipped: "build_sim_cards a = zipped_sim_cards (named_arrays a)"
  by (simp add: build_sim_cards_def zipped_sim_cards_def max_length_fold sim_card_at_zip_row)

text \<open>
  C5. For every submission \<open>q\<close> the normalization returns a bag \<open>b\<close>; the submitted
  \<open>device_type\<close> has no influence on it; and a key other than \<open>sim_cards\<close> is in \<open>b\<close>
  exactly when it is one of the fixed attribute names and its submitted value is not empty
  after trimming. The value stored is the trimmed text (\<open>True\<close> for the check box
  \<open>write_blocker_used\<close>), so no key is ever stored with an empty value.
\<close>

theorem normalization_retains_known_nonempty_keys:
  "\<exists>b. extract_device_specific_data (QueryDict q) = Inr b
     \<and> extract_device_specific_data (QueryDict (q(''device_type'' := dt))) = Inr b
     \<and> (\<forall>k. k \<noteq> ''sim_cards'' \<longrightarrow>
           b k = (if k \<in> set device_specific_fields \<and> q k \<noteq> [] \<and> strip (last (q k)) \<noteq> []
                  then Some (if k = ''write_blocker_used'' then PBool True
                             else PStr (strip (last (q k))))
                  else None))"
proof -
  have nf: "''device_type'' \<notin> set device_specific_fields"
    by (simp add: device_specific_fields_def)
  have a: "arrays_of (q(''device_type'' := dt)) = arrays_of q"
    by (simp add: arrays_of_def)
  have f: "\<And>k. k \<in> set device_specific_fields \<Longrightarrow>
             flat_value (q(''device_type'' := dt)) k = flat_value q k"
    using nf by (auto simp: flat_value_def)
  have "extract_device_specific_data (QueryDict (q(''device_type'' := dt)))
        = extract_device_specific_data (QueryDict q)"
    unfolding extract_qd a using f by (auto simp: fun_eq_iff)
  then show ?thesis
    by (simp add: extract_qd flat_value_def)
qed

text \<open>
  The specification's example: for a mobile device the bag
  \<open>{'os_type': ' iOS ', 'cpu': 'x86', 'unknown_key': 'x'}\<close> keeps \<open>os_type\<close>, trimmed, and
  \<open>cpu\<close>, and drops \<open>unknown_key\<close>.
\<close>

theorem normalization_retains_known_nonempty_keys_witness:
  "\<exists>b. extract_device_specific_data
          (QueryDict ((\<lambda>k. [])(''os_type'' := ['' iOS ''], ''cpu'' := [''x86''],
                               ''unknown_key'' := [''x''], ''device_type'' := [''mobile'']))) = Inr b
     \<and> b ''os_type'' = Some (PStr ''iOS'') \<and> b ''cpu'' = Some (PStr ''x86'')
     \<and> b ''unknown_key'' = None \<and> b ''device_type'' = None"
proof -
  obtain b where b: "extract_device_specific_data
          (QueryDict (((\<lambda>k. [])(''os_type'' := ['' iOS ''], ''cpu'' := [''x86''],
                               ''unknown_key'' := [''x'']))(''device_type'' := [''mobile'']))) = Inr b"
    and k: "\<And>k. k \<noteq> ''sim_cards'' \<Longrightarrow>
           b k = (if k \<in> set device_specific_fields
                      \<and> ((\<lambda>k. [])(''os_type'' := ['' iOS ''], ''cpu'' := [''x86''],
                                   ''unknown_key'' := [''x''])) k \<noteq> []
                      \<and> strip (last (((\<lambda>k. [])(''os_type'' := ['' iOS ''], ''cpu'' := [''x86''],
                                                ''unknown_key'' := [''x''])) k)) \<noteq> []
                  then Some (if k = ''write_blocker_used'' then PBool True
                             else PStr (strip (last (((\<lambda>k. [])(''os_type'' := ['' iOS ''],
                                      ''cpu'' := [''x86''], ''unknown_key'' := [''x''])) k))))
                  else None)"
    using normalization_retains_known_nonempty_keys
            [of "(\<lambda>k. [])(''os_type'' := ['' iOS ''], ''cpu'' := [''x86''], ''unknown_key'' := [''x''])"
                "[''mobile'']"]
    by blast
  have "b ''os_type'' = Some (PStr ''iOS'')"
    by (subst k) (simp_all add: device_specific_fields_def strip_def py_isspace_def)
  moreover have "b ''cpu'' = Some (PStr ''x86'')"
    by (subst k) (simp_all add: device_specific_fields_def strip_def py_isspace_def)
  moreover have "b ''unknown_key'' = None"
    by (subst k) (simp_all add: device_specific_fields_def)
  moreover have "b ''device_type'' = None"
    by (subst k) (simp_all add: device_specific_fields_def)
  ultimately show ?thesis using b by blast
qed

text \<open>
  C6. For every submission the \<open>sim_cards\<close> entry of the returned bag is the list obtained
  by zipping the seven parallel arrays by position up to the longest one, keeping in each
  row the fields present and not blank at that index and dropping the rows without a
  field; the key is absent when no row is left.
\<close>

theorem sim_cards_zipped_by_position:
  "\<exists>b. extract_device_specific_data (QueryDict q) = Inr b
     \<and> b ''sim_cards'' =
         (if zipped_sim_cards (named_arrays (arrays_of q)) = [] then None
          else Some (PSims (zipped_sim_cards (named_arrays (arrays_of q)))))"
  by (simp add: extract_qd build_sim_cards_zipped)

text \<open>
  The specification's example: \<open>iccid = ['A', 'B']\<close>, \<open>imsi = ['X']\<close> and no other array
  give \<open>[{'iccid': 'A', 'imsi': 'X'}, {'iccid': 'B'}]\<close>.
\<close>

theorem sim_cards_zipped_by_position_witness:
  "\<exists>b. extract_device_specific_data
          (QueryDict ((\<lambda>k. [])(''sim_iccid[]'' := [''A'', ''B''], ''sim_imsi[]'' := [''X'']))) = Inr b
     \<and> b ''sim_cards'' = Some (PSims [[(''iccid'', ''A''), (''imsi'', ''X'')], [(''iccid'', ''B'')]])"
proof -
  have z: "zipped_sim_cards (named_arrays (arrays_of
             ((\<lambda>k. [])(''sim_iccid[]'' := [''A'', ''B''], ''sim_imsi[]'' := [''X'']))))
           = [[(''iccid'', ''A''), (''imsi'', ''X'')], [(''iccid'', ''B'')]]"
    by (simp add: zipped_sim_cards_def named_arrays_def arrays_of_def zip_row_def strip_def
          py_isspace_def upt_rec)
  show ?thesis
    using sim_cards_zipped_by_position
            [of "(\<lambda>k. [])(''sim_iccid[]'' := [''A'', ''B''], ''sim_imsi[]'' := [''X''])"]
    unfolding z by simp
qed

subsection \<open>Running the normalization on what it returned\<close>













section \<open>Facts about saving evidence\<close>

lemma length_hexdigest: "length (hexdigest (w :: 'a::len word)) = LENGTH('a) div 4"
  by (simp add: hexdigest_def)

lemma hexdigest_md5_nonempty: "hexdigest (w :: 128 word) \<noteq> []"
  using length_hexdigest [of w] by auto

lemma fingerprint_pk [simp]: "ev_pk (fingerprint en e) = ev_pk e"
  and fingerprint_number [simp]: "evidence_number (fingerprint en e) = evidence_number e"
  and fingerprint_department [simp]: "current_department (fingerprint en e) = current_department e"
  and fingerprint_bag [simp]: "device_specific_data (fingerprint en e) = device_specific_data e"
  and fingerprint_received_by [simp]: "received_by (fingerprint en e) = received_by e"
  by (auto simp: fingerprint_def split: option.splits)

lemma find_replace:
  "find (\<lambda>e. ev_pk e = pk) xs = Some x \<Longrightarrow> ev_pk s = pk \<Longrightarrow>
   find (\<lambda>e. ev_pk e = pk) (map (\<lambda>e. if ev_pk e = pk then s else e) xs) = Some s"
  by (induction xs) (auto split: if_splits)

lemma find_replace_other:
  "pk' \<noteq> pk \<Longrightarrow> ev_pk s = pk \<Longrightarrow>
   find (\<lambda>e. ev_pk e = pk') (map (\<lambda>e. if ev_pk e = pk then s else e) xs) = find (\<lambda>e. ev_pk e = pk') xs"
  by (induction xs) (auto split: if_splits)

lemma find_Some_ex: "find P xs = Some x \<Longrightarrow> list_ex P xs"
  by (induction xs) (auto split: if_splits)

lemma find_Some_pk: "find (\<lambda>e. ev_pk e = pk) xs = Some x \<Longrightarrow> ev_pk x = pk"
  by (induction xs) (auto split: if_splits)

lemma find_None_not_ex: "find P xs = None \<Longrightarrow> \<not> list_ex P xs"
  by (induction xs) (auto split: if_splits)

lemma find_append_new: "find P xs = None \<Longrightarrow> P s \<Longrightarrow> find P (xs @ [s]) = Some s"
  by (induction xs) (auto split: if_splits)

text \<open>A successful save leaves the saved instance as the row of its key.\<close>

lemma evidence_save_stores:
  assumes "evidence_save en fi self d = (self', Inr d')"
  shows "self' = fingerprint en self"
    and "find_evidence (ev_pk self) d' = Some self'"
    and "transfers d' = transfers d" and "cases d' = cases d"
proof -
  show s: "self' = fingerprint en self"
    using assms by (auto simp: evidence_save_def Let_def)
  have ss: "evidence_super_save fi (fingerprint en self) d = Inr d'"
    using assms by (auto simp: evidence_save_def Let_def)
  show "find_evidence (ev_pk self) d' = Some self'"
  proof (cases "find (\<lambda>e. ev_pk e = ev_pk self) (evidence_tbl d)")
    case None
    with ss show ?thesis
      using find_None_not_ex [OF None] find_append_new [OF None, of "fingerprint en self"]
      by (auto simp: evidence_super_save_def find_evidence_def s split: if_splits)
  next
    case (Some x)
    with ss show ?thesis
      using find_Some_ex [OF Some] find_replace [OF Some, of "fingerprint en self"]
      by (auto simp: evidence_super_save_def find_evidence_def s split: if_splits)
  qed
  from ss show "transfers d' = transfers d" "cases d' = cases d"
    by (auto simp: evidence_super_save_def split: if_splits)
qed

lemma evidence_save_fails:
  "evidence_save en fi self d = (self', Inl e) \<Longrightarrow> e = IntegrityError"
  by (auto simp: evidence_save_def evidence_super_save_def Let_def split: if_splits)

lemma create_transfer_tbl [simp]:
  "evidence_tbl (create_transfer en ev f t n d) = evidence_tbl d"
  "cases (create_transfer en ev f t n d) = cases d"
  by (simp_all add: create_transfer_def)

lemma find_evidence_create_transfer [simp]:
  "find_evidence pk (create_transfer en ev f t n d) = find_evidence pk d"
  by (simp add: find_evidence_def)

lemma save_and_log_result:
  assumes "save_and_log en old new e d = (r, d')"
  shows "(r = Inl IntegrityError \<and> d' = d \<and> (\<exists>x. evidence_save en False e d = (x, Inl IntegrityError)))
       \<or> (r = Inr EvidenceUpdated \<and>
           (\<exists>d1. evidence_save en False e d = (fingerprint en e, Inr d1)
                \<and> d' = (if old \<noteq> new
                        then create_transfer en (fingerprint en e) old new ''Evidence update'' d1
                        else d1)))"
proof (cases "evidence_save en False e d")
  case (Pair ev res)
  show ?thesis
  proof (cases res)
    case (Inl x)
    with Pair assms evidence_save_fails [of en False e d ev x] show ?thesis
      by (auto simp: save_and_log_def)
  next
    case (Inr d1)
    with Pair assms evidence_save_stores(1) [of en False e d ev d1] show ?thesis
      by (auto simp: save_and_log_def)
  qed
qed

lemma evidence_update_result:
  assumes "evidence_update en pk q d = (r, d')"
  shows "(r \<noteq> Inr EvidenceUpdated \<and> d' = d)
       \<or> (\<exists>evidence b rd dt st.
             find (\<lambda>e. ev_pk e = pk) (evidence_tbl d) = Some evidence
           \<and> extract_device_specific_data (QueryDict q) = Inr b
           \<and> save_and_log en (current_department evidence) (qget_default q ''current_department'' [])
                (assign_submitted en q b rd dt st evidence) d = (r, d')
           \<and> r = Inr EvidenceUpdated)"
proof (cases "r = Inr EvidenceUpdated")
  case True
  with assms show ?thesis
    by (auto simp: evidence_update_def split: option.splits sum.splits if_splits)
next
  case False
  have "d' = d"
    using assms False
    by (auto simp: evidence_update_def split: option.splits sum.splits if_splits
          dest!: save_and_log_result)
  with False show ?thesis by simp
qed

lemma assign_submitted_fields [simp]:
  "ev_pk (assign_submitted en q b rd dt st e) = ev_pk e"
  "device_specific_data (assign_submitted en q b rd dt st e) = b"
  "current_department (assign_submitted en q b rd dt st e) = qget_default q ''current_department'' []"
  "evidence_number (assign_submitted en q b rd dt st e) =
     (if strip (qget_default q ''evidence_number'' []) \<noteq> [] then strip (qget_default q ''evidence_number'' [])
      else evidence_number e)"
  by (simp_all add: assign_submitted_def Let_def)

text \<open>
  C10. When \<open>evidence_update\<close> succeeds, the bag stored with the item is the bag that the
  normalization extracts from this submission, whatever was stored before: nothing of the
  old bag is merged in, so a key (\<open>sim_cards\<close> included) that the submission does not
  provide, or provides blank, is gone.
\<close>

theorem update_replaces_attribute_bag:
  assumes "evidence_update en pk q d = (Inr EvidenceUpdated, d')"
  shows "\<exists>ev. find_evidence pk d' = Some ev
           \<and> extract_device_specific_data (QueryDict q) = Inr (device_specific_data ev)"
proof -
  from evidence_update_result [OF assms] obtain evidence b rd dt st where
    f: "find (\<lambda>e. ev_pk e = pk) (evidence_tbl d) = Some evidence" and
    b: "extract_device_specific_data (QueryDict q) = Inr b" and
    sl: "save_and_log en (current_department evidence) (qget_default q ''current_department'' [])
           (assign_submitted en q b rd dt st evidence) d = (Inr EvidenceUpdated, d')"
    by auto
  have pk: "ev_pk evidence = pk" using find_Some_pk [OF f] .
  from save_and_log_result [OF sl] obtain d1 where
    sv: "evidence_save en False (assign_submitted en q b rd dt st evidence) d
           = (fingerprint en (assign_submitted en q b rd dt st evidence), Inr d1)" and
    d': "d' = (if current_department evidence \<noteq> qget_default q ''current_department'' []
               then create_transfer en (fingerprint en (assign_submitted en q b rd dt st evidence))
                      (current_department evidence) (qget_default q ''current_department'' [])
                      ''Evidence update'' d1
               else d1)"
    by auto
  from evidence_save_stores(2) [OF sv] pk
  have "find_evidence pk d1 = Some (fingerprint en (assign_submitted en q b rd dt st evidence))"
    by simp
  with d' b show ?thesis by auto
qed

lemma example_update_succeeds:
  "fst (evidence_update example_env ''e1'' example_update example_db) = Inr EvidenceUpdated"
  by code_simp

theorem update_replaces_attribute_bag_witness:
  "\<exists>ev. find_evidence ''e1'' (snd (evidence_update example_env ''e1'' example_update example_db)) = Some ev
      \<and> device_specific_data ev ''cpu'' = Some (PStr ''x86'')
      \<and> device_specific_data ev ''os_type'' = None
      \<and> device_specific_data ev ''sim_cards'' = None"
proof -
  have "evidence_update example_env ''e1'' example_update example_db
        = (Inr EvidenceUpdated, snd (evidence_update example_env ''e1'' example_update example_db))"
    using example_update_succeeds by (metis prod.collapse)
  from update_replaces_attribute_bag [OF this] obtain ev where
    ev: "find_evidence ''e1'' (snd (evidence_update example_env ''e1'' example_update example_db)) = Some ev"
    and b: "extract_device_specific_data (QueryDict example_update) = Inr (device_specific_data ev)"
    by blast
  from b have "Inr (device_specific_data ev) = extract_device_specific_data (QueryDict example_update)"
    by simp
  then have e: "device_specific_data ev =
       (\<lambda>k. if k = ''sim_cards''
              then (if build_sim_cards (arrays_of example_update) \<noteq> []
                    then Some (PSims (build_sim_cards (arrays_of example_update))) else None)
              else if k \<in> set device_specific_fields then flat_value example_update k else None)"
    by (simp add: extract_qd)
  have "build_sim_cards (arrays_of example_update) = []"
    by (simp add: build_sim_cards_no_data any_sim_data_def arrays_of_def example_update_def)
  then have "device_specific_data ev ''sim_cards'' = None"
    by (simp add: e)
  moreover have "device_specific_data ev ''cpu'' = Some (PStr ''x86'')"
    by (simp add: e example_update_def flat_value_def device_specific_fields_def strip_def py_isspace_def)
  moreover have "device_specific_data ev ''os_type'' = None"
    by (simp add: e example_update_def flat_value_def)
  ultimately show ?thesis using ev by blast
qed

text \<open>
  C4. Saving an item with attached content: when \<open>hash_md5\<close> is empty, the three digests
  of the whole content and its length are set together (and \<open>hash_md5\<close> is then not empty);
  when \<open>hash_md5\<close> is not empty, the four fields are left as they are; so after a first
  attachment a save with other content keeps the digests and the size of the first; and a
  save that succeeds stores the instance it returns.
\<close>

theorem fingerprint_first_write_wins:
  "(file_path self = Some content \<and> hash_md5 self = [] \<longrightarrow>
      hash_md5 (fst (evidence_save en fi self d)) = hexdigest (md5 en content)
    \<and> hash_sha1 (fst (evidence_save en fi self d)) = hexdigest (sha1 en content)
    \<and> hash_sha256 (fst (evidence_save en fi self d)) = hexdigest (sha256 en content)
    \<and> file_size (fst (evidence_save en fi self d)) = Some (length content)
    \<and> hash_md5 (fst (evidence_save en fi self d)) \<noteq> [])
   \<and> (hash_md5 self \<noteq> [] \<longrightarrow>
      hash_md5 (fst (evidence_save en fi self d)) = hash_md5 self
    \<and> hash_sha1 (fst (evidence_save en fi self d)) = hash_sha1 self
    \<and> hash_sha256 (fst (evidence_save en fi self d)) = hash_sha256 self
    \<and> file_size (fst (evidence_save en fi self d)) = file_size self)
   \<and> (file_path self = Some content \<and> hash_md5 self = [] \<longrightarrow>
      hash_md5 (fst (evidence_save en fi' ((fst (evidence_save en fi self d))\<lparr>file_path := Some content'\<rparr>) d'))
        = hexdigest (md5 en content)
    \<and> hash_sha1 (fst (evidence_save en fi' ((fst (evidence_save en fi self d))\<lparr>file_path := Some content'\<rparr>) d'))
        = hexdigest (sha1 en content)
    \<and> hash_sha256 (fst (evidence_save en fi' ((fst (evidence_save en fi self d))\<lparr>file_path := Some content'\<rparr>) d'))
        = hexdigest (sha256 en content)
    \<and> file_size (fst (evidence_save en fi' ((fst (evidence_save en fi self d))\<lparr>file_path := Some content'\<rparr>) d'))
        = Some (length content))
   \<and> (evidence_save en fi self d = (s, Inr d2) \<longrightarrow> find_evidence (ev_pk self) d2 = Some s)"
proof -
  have ne: "hexdigest (md5 en content) \<noteq> []"
    by (rule hexdigest_md5_nonempty)
  have f: "fst (evidence_save en fi self d) = fingerprint en self" for en fi self d
    by (simp add: evidence_save_def Let_def)
  show ?thesis
    using ne evidence_save_stores(2) [of en fi self d s d2]
    by (auto simp: f fingerprint_def split: option.splits)
qed

theorem fingerprint_first_write_wins_witness:
  "hash_md5 (fst (evidence_save example_env False (example_evidence\<lparr>file_path := Some [1, 2, 3]\<rparr>) example_db))
     = ''00000000000000000000000000000000''
   \<and> file_size (fst (evidence_save example_env False (example_evidence\<lparr>file_path := Some [1, 2, 3]\<rparr>) example_db))
     = Some 3
   \<and> file_size (fst (evidence_save example_env False
        ((fst (evidence_save example_env False (example_evidence\<lparr>file_path := Some [1, 2, 3]\<rparr>) example_db))
           \<lparr>file_path := Some [9]\<rparr>) example_db)) = Some 3"
proof -
  have h: "file_path (example_evidence\<lparr>file_path := Some [1, 2, 3]\<rparr>) = Some [1, 2, 3]
         \<and> hash_md5 (example_evidence\<lparr>file_path := Some [1, 2, 3]\<rparr>) = []"
    by (simp add: example_evidence_def)
  have x: "hexdigest (md5 example_env [1, 2, 3]) = ''00000000000000000000000000000000''"
    by (simp add: example_env_def hexdigest_def hex_char_def upt_rec)
  show ?thesis
    using h x fingerprint_first_write_wins [of "example_evidence\<lparr>file_path := Some [1, 2, 3]\<rparr>" "[1, 2, 3]"
        example_env False example_db False "[9]" example_db]
    by simp
qed

end
